theory Spec2Isabelle
  imports Main
begin

section \<open>Data model of forward.go\<close>

text \<open>
  A Go \<^verbatim>\<open>error\<close> is modelled by its message: \<open>None\<close> is \<^verbatim>\<open>nil\<close>,
  \<open>Some m\<close> is an error whose \<^verbatim>\<open>Error()\<close> text is \<open>m\<close>.
\<close>

type_synonym error = "string option"

text \<open>
  The declaration of \<^verbatim>\<open>ForwardType\<close> is not part of forward.go. The code compares
  \<^verbatim>\<open>tun.forwardType\<close> with the two constants \<^verbatim>\<open>Local\<close> and \<^verbatim>\<open>Remote\<close> and
  has no \<^verbatim>\<open>else\<close> branch; a Go enumeration is an integer type, so a value that is
  neither constant exists, and \<open>Undeclared\<close> stands for it.
\<close>

datatype ForwardType = Local | Remote | Undeclared int

text \<open>
  Modelled from the spec: the \<^verbatim>\<open>Endpoint\<close> type is declared outside forward.go,
  which only calls its methods \<^verbatim>\<open>Type()\<close> and \<^verbatim>\<open>String()\<close>. The spec gives an
  endpoint a transport kind and an address string.
\<close>

record Endpoint =
  kind :: string
  address :: string

definition endpoint_Type :: "Endpoint \<Rightarrow> string" where
  "endpoint_Type e = kind e"

definition endpoint_String :: "Endpoint \<Rightarrow> string" where
  "endpoint_String e = address e"

record TunneledConnState =
  From :: string
  Info :: string
  Error :: error
  Ready :: bool
  Closed :: bool

text \<open>
  The fields of \<^verbatim>\<open>SSHTun\<close> that \<^verbatim>\<open>forward\<close> reads. The callback field
  \<^verbatim>\<open>tunneledConnState\<close> is a function value in Go; here it is \<open>True\<close> when a
  callback is registered (not \<^verbatim>\<open>nil\<close>), and calling it is recorded as an event.
\<close>

record SSHTun =
  forwardType :: ForwardType
  local :: Endpoint
  remote :: Endpoint
  server :: Endpoint
  tunneledConnState :: bool

text \<open>
  What the outside world does during one call: the peer address of the accepted
  connection, the result of the dial, the result of each \<^verbatim>\<open>io.Copy\<close>, the
  result of each \<^verbatim>\<open>Close\<close> inside a copy task, and whether \<^verbatim>\<open>tun.ctx\<close> is
  done when the \<^verbatim>\<open>select\<close> statement looks at it.
\<close>

datatype task = TaskA | TaskB

record world =
  remoteAddr :: string
  dialResult :: error
  copyResult :: "task \<Rightarrow> error"
  closeResult :: "task \<Rightarrow> error"
  tunDone :: bool

datatype conn = FromConn | ToConn

datatype dialer = SSHClientDial | NetDial

text \<open>
  The observable actions of one call, in order: a state handed to the callback, a dial
  (dialer, network, address), a \<^verbatim>\<open>Close\<close> of a connection, an \<^verbatim>\<open>io.Copy\<close>
  (task, destination, source; \<open>None\<close> is a nil connection), and the return of a copy
  task with its error value.
\<close>

datatype event =
    State TunneledConnState
  | Dial dialer string string
  | Close conn
  | Copy task "conn option" "conn option"
  | Return task error

section \<open>The callback and the formatted values\<close>

definition tunneledState :: "SSHTun \<Rightarrow> TunneledConnState \<Rightarrow> event list" where
  "tunneledState tun st = (if tunneledConnState tun then [State st] else [])"

text \<open>
  \<^verbatim>\<open>fmt.Errorf(prefix + "%w", err)\<close>: the message of the wrapped error follows the
  prefix; a nil operand of \<^verbatim>\<open>%w\<close> prints as \<^verbatim>\<open>%!w(<nil>)\<close>.
\<close>

definition Errorf_w :: "string \<Rightarrow> error \<Rightarrow> error" where
  "Errorf_w prefix e =
     Some (prefix @ (case e of None \<Rightarrow> ''%!w(<nil>)'' | Some m \<Rightarrow> m))"

definition acceptedState :: "string \<Rightarrow> Endpoint \<Rightarrow> TunneledConnState" where
  "acceptedState from ep =
     \<lparr>From = from, Info = ''accepted '' @ endpoint_Type ep @ '' connection'',
      Error = None, Ready = False, Closed = False\<rparr>"

definition dialFailedState :: "string \<Rightarrow> string \<Rightarrow> Endpoint \<Rightarrow> string \<Rightarrow> TunneledConnState" where
  "dialFailedState from side ep cause =
     \<lparr>From = from, Info = [],
      Error = Errorf_w (side @ '' dial '' @ endpoint_Type ep @ '' to '' @ endpoint_String ep
                        @ '' failed: '') (Some cause),
      Ready = False, Closed = False\<rparr>"

definition connStr :: "SSHTun \<Rightarrow> string \<Rightarrow> string" where
  "connStr tun from =
     from @ '' -('' @ endpoint_Type (local tun) @ '')> '' @ endpoint_String (local tun)
          @ '' -(ssh)> '' @ endpoint_String (server tun)
          @ '' -('' @ endpoint_Type (remote tun) @ '')> '' @ endpoint_String (remote tun)"

definition establishedState :: "SSHTun \<Rightarrow> string \<Rightarrow> TunneledConnState" where
  "establishedState tun from =
     \<lparr>From = from, Info = ''connection established: '' @ connStr tun from,
      Error = None, Ready = True, Closed = False\<rparr>"

definition copyErrorState :: "string \<Rightarrow> string \<Rightarrow> TunneledConnState" where
  "copyErrorState from m =
     \<lparr>From = from, Info = [], Error = Some m, Ready = False, Closed = True\<rparr>"

definition closedState :: "SSHTun \<Rightarrow> string \<Rightarrow> TunneledConnState" where
  "closedState tun from =
     \<lparr>From = from, Info = ''connection closed: '' @ connStr tun from,
      Error = None, Ready = False, Closed = True\<rparr>"

section \<open>The two copy tasks\<close>

text \<open>
  Both goroutines assign the captured variable \<^verbatim>\<open>err\<close> of \<^verbatim>\<open>forward\<close>
  (\<^verbatim>\<open>_, err = io.Copy(...)\<close>) and read it back, so the pump is modelled as an
  interleaving of atomic steps over a shared store. A task is at one of these places:
  before its \<^verbatim>\<open>io.Copy\<close> returns and its result is stored in \<^verbatim>\<open>err\<close>; at the test
  \<^verbatim>\<open>err != nil\<close>; at the \<^verbatim>\<open>fmt.Errorf\<close> chosen by the test (which reads
  \<^verbatim>\<open>err\<close> again); at the final \<^verbatim>\<open>Close\<close>; or returned with an error value.
\<close>

datatype pc = AtCopy | AtTest | AtErrorf string | AtClose | Returned error

record pump =
  err :: error
  pcs :: "task \<Rightarrow> pc"
  groupErr :: error
  connCtxDone :: bool
  panicked :: bool
  events :: "event list"

text \<open>Task A runs \<^verbatim>\<open>io.Copy(toConn, fromConn)\<close>, task B \<^verbatim>\<open>io.Copy(fromConn, toConn)\<close>.\<close>

fun copy_dst :: "task \<Rightarrow> conn option \<Rightarrow> conn option" where
  "copy_dst TaskA toConn = toConn"
| "copy_dst TaskB toConn = Some FromConn"

fun copy_src :: "task \<Rightarrow> conn option \<Rightarrow> conn option" where
  "copy_src TaskA toConn = Some FromConn"
| "copy_src TaskB toConn = toConn"

text \<open>The format strings of lines 98 and 100 (task A) and 111 and 113 (task B).\<close>

fun label_Local :: "task \<Rightarrow> string" where
  "label_Local TaskA = ''failed copying bytes from remote to local: ''"
| "label_Local TaskB = ''failed copying bytes from local to remote: ''"

fun label_Remote :: "task \<Rightarrow> string" where
  "label_Remote TaskA = ''failed copying bytes from local to remote: ''"
| "label_Remote TaskB = ''failed copying bytes from remote to local: ''"

text \<open>Task A ends with \<^verbatim>\<open>toConn.Close()\<close>, task B with \<^verbatim>\<open>fromConn.Close()\<close>.\<close>

fun close_target :: "task \<Rightarrow> conn" where
  "close_target TaskA = ToConn"
| "close_target TaskB = FromConn"

text \<open>
  A task returns: its deferred \<^verbatim>\<open>connCancel()\<close> runs, and the error group keeps
  the first error that is not nil.
\<close>

definition finish :: "task \<Rightarrow> error \<Rightarrow> pump \<Rightarrow> pump" where
  "finish t e s =
     s\<lparr>pcs := (pcs s)(t := Returned e),
       groupErr := (if e \<noteq> None \<and> groupErr s = None then e else groupErr s),
       connCtxDone := True,
       events := events s @ [Return t e]\<rparr>"

text \<open>
  One step of task \<open>t\<close>. A method call on a nil connection is a nil dereference,
  which panics and ends the program. With a nil \<^verbatim>\<open>toConn\<close>, task B dereferences it
  at the first read inside \<^verbatim>\<open>io.Copy\<close>; task A does so at the first write inside
  \<^verbatim>\<open>io.Copy\<close> or, when its source yields nothing, at \<^verbatim>\<open>toConn.Close()\<close>. The
  model places the panic at the copy in both tasks.
\<close>

definition step :: "SSHTun \<Rightarrow> world \<Rightarrow> conn option \<Rightarrow> task \<Rightarrow> pump \<Rightarrow> pump" where
  "step tun w toConn t s =
     (if panicked s then s
      else case pcs s t of
        AtCopy \<Rightarrow>
          (if copy_dst t toConn = None \<or> copy_src t toConn = None
           then s\<lparr>panicked := True,
                  events := events s @ [Copy t (copy_dst t toConn) (copy_src t toConn)]\<rparr>
           else s\<lparr>err := copyResult w t,
                  pcs := (pcs s)(t := AtTest),
                  events := events s @ [Copy t (copy_dst t toConn) (copy_src t toConn)]\<rparr>)
      | AtTest \<Rightarrow>
          (if err s \<noteq> None then
             (if forwardType tun = Local then s\<lparr>pcs := (pcs s)(t := AtErrorf (label_Local t))\<rparr>
              else if forwardType tun = Remote then s\<lparr>pcs := (pcs s)(t := AtErrorf (label_Remote t))\<rparr>
              else s\<lparr>pcs := (pcs s)(t := AtClose)\<rparr>)
           else s\<lparr>pcs := (pcs s)(t := AtClose)\<rparr>)
      | AtErrorf prefix \<Rightarrow> finish t (Errorf_w prefix (err s)) s
      | AtClose \<Rightarrow>
          finish t (closeResult w t) (s\<lparr>events := events s @ [Close (close_target t)]\<rparr>)
      | Returned e \<Rightarrow> s)"

text \<open>
  A schedule lists which task moves next. A task that is named after it has returned
  does nothing; a task that is never named again stays where it is (a copy that never
  returns).
\<close>

primrec run_tasks :: "SSHTun \<Rightarrow> world \<Rightarrow> conn option \<Rightarrow> task list \<Rightarrow> pump \<Rightarrow> pump" where
  "run_tasks tun w toConn [] s = s"
| "run_tasks tun w toConn (t # ts) s = run_tasks tun w toConn ts (step tun w toConn t s)"

definition start_pump :: "error \<Rightarrow> event list \<Rightarrow> pump" where
  "start_pump e evs =
     \<lparr>err = e, pcs = (\<lambda>t. AtCopy), groupErr = None, connCtxDone = False,
      panicked = False, events = evs\<rparr>"

definition returned :: "pc \<Rightarrow> bool" where
  "returned p = (case p of Returned e \<Rightarrow> True | _ \<Rightarrow> False)"

section \<open>forward\<close>

text \<open>
  The call ends in one of three ways: it returns; it never returns (\<^verbatim>\<open>Wait\<close> blocks
  because a task has not returned under the given schedule); or the program panics.
\<close>

datatype outcome = Returns | Blocks | Panics

text \<open>Lines 40 to 50: the accepted notification.\<close>

definition notify_accepted :: "SSHTun \<Rightarrow> string \<Rightarrow> event list" where
  "notify_accepted tun from =
     (if forwardType tun = Local then tunneledState tun (acceptedState from (local tun))
      else if forwardType tun = Remote then tunneledState tun (acceptedState from (remote tun))
      else [])"

text \<open>Lines 119 to 140: after \<^verbatim>\<open>Wait\<close> has returned the group's error.\<close>

definition report_closed :: "SSHTun \<Rightarrow> world \<Rightarrow> string \<Rightarrow> error \<Rightarrow> event list" where
  "report_closed tun w from e =
     (if tunDone w then []
      else (case e of None \<Rightarrow> [] | Some m \<Rightarrow> tunneledState tun (copyErrorState from m)))
     @ tunneledState tun (closedState tun from)"

text \<open>
  Lines 80 to 140: the established notification, the pump and the final report.
  \<^verbatim>\<open>errGroup.Wait()\<close> returns once both tasks have returned. The receive
  \<^verbatim>\<open><-connCtx.Done()\<close> passes when \<^verbatim>\<open>connCancel\<close> has run or the parent context
  \<^verbatim>\<open>tun.ctx\<close> is done.
\<close>

definition pump_phase ::
  "SSHTun \<Rightarrow> world \<Rightarrow> task list \<Rightarrow> string \<Rightarrow> conn option \<Rightarrow> error \<Rightarrow> event list
   \<Rightarrow> outcome \<times> event list" where
  "pump_phase tun w sched from toConn e evs =
     (let s = run_tasks tun w toConn sched
                (start_pump e (evs @ tunneledState tun (establishedState tun from)))
      in if panicked s then (Panics, events s)
         else if returned (pcs s TaskA) \<and> returned (pcs s TaskB)
                 \<and> (connCtxDone s \<or> tunDone w)
         then (Returns, events s @ report_closed tun w from (groupErr s))
         else (Blocks, events s))"

definition forward :: "SSHTun \<Rightarrow> world \<Rightarrow> task list \<Rightarrow> outcome \<times> event list" where
  "forward tun w sched =
     (let from = remoteAddr w;
          evs = notify_accepted tun from
      in if forwardType tun = Local then
           (let evs' = evs @ [Dial SSHClientDial (endpoint_Type (remote tun))
                                                 (endpoint_String (remote tun))]
            in case dialResult w of
                 Some cause \<Rightarrow>
                   (Returns, evs' @ tunneledState tun (dialFailedState from ''remote'' (remote tun) cause)
                                  @ [Close FromConn])
               | None \<Rightarrow> pump_phase tun w sched from (Some ToConn) None evs')
         else if forwardType tun = Remote then
           (let evs' = evs @ [Dial NetDial (endpoint_Type (local tun))
                                           (endpoint_String (local tun))]
            in case dialResult w of
                 Some cause \<Rightarrow>
                   (Returns, evs' @ tunneledState tun (dialFailedState from ''local'' (local tun) cause)
                                  @ [Close FromConn])
               | None \<Rightarrow> pump_phase tun w sched from (Some ToConn) None evs')
         else pump_phase tun w sched from None None evs)"

text \<open>The states handed to the callback, in order.\<close>

fun notifications :: "event list \<Rightarrow> TunneledConnState list" where
  "notifications [] = []"
| "notifications (State st # es) = st # notifications es"
| "notifications (e # es) = notifications es"

text \<open>The first error that a copy task returned, in the order of the trace.\<close>

fun first_error :: "event list \<Rightarrow> error" where
  "first_error [] = None"
| "first_error (Return t (Some m) # es) = Some m"
| "first_error (e # es) = first_error es"

text \<open>The \<^verbatim>\<open>io.Copy\<close> calls of a trace, in order.\<close>

fun copies :: "event list \<Rightarrow> event list" where
  "copies [] = []"
| "copies (Copy t d s # es) = Copy t d s # copies es"
| "copies (e # es) = copies es"

text \<open>The \<^verbatim>\<open>Close\<close> calls of a trace, in order.\<close>

fun closes :: "event list \<Rightarrow> conn list" where
  "closes [] = []"
| "closes (Close c # es) = c # closes es"
| "closes (e # es) = closes es"

text \<open>The copy tasks of a trace in the order in which they returned.\<close>

fun returned_tasks :: "event list \<Rightarrow> task list" where
  "returned_tasks [] = []"
| "returned_tasks (Return t e # es) = t # returned_tasks es"
| "returned_tasks (e # es) = returned_tasks es"

text \<open>An upper bound on the steps a task still takes before it has returned.\<close>

fun steps_left :: "pc \<Rightarrow> nat" where
  "steps_left AtCopy = 3"
| "steps_left AtTest = 2"
| "steps_left (AtErrorf p) = 1"
| "steps_left AtClose = 1"
| "steps_left (Returned e) = 0"

text \<open>
  Modelled from the spec: the table of lifecycle states (section 4.4), which names a
  notification by its \<^verbatim>\<open>ready\<close>, \<^verbatim>\<open>closed\<close> and \<^verbatim>\<open>error\<close> fields. The code
  has no such type; the table is what the claims about the order of notifications
  speak of.
\<close>

datatype lifecycle = Accepted | DialFailed | Established | ClosedWithError | ClosedFinal

definition classify :: "TunneledConnState \<Rightarrow> lifecycle option" where
  "classify st =
     (if \<not> Ready st \<and> \<not> Closed st \<and> Error st = None then Some Accepted
      else if \<not> Ready st \<and> \<not> Closed st \<and> Error st \<noteq> None then Some DialFailed
      else if Ready st \<and> \<not> Closed st \<and> Error st = None then Some Established
      else if \<not> Ready st \<and> Closed st \<and> Error st \<noteq> None then Some ClosedWithError
      else if \<not> Ready st \<and> Closed st \<and> Error st = None then Some ClosedFinal
      else None)"

section \<open>Concrete calls\<close>

definition tunL :: SSHTun where
  "tunL = \<lparr>forwardType = Local,
           local = \<lparr>kind = ''tcp'', address = ''127.0.0.1:8080''\<rparr>,
           remote = \<lparr>kind = ''tcp'', address = ''10.0.0.1:9999''\<rparr>,
           server = \<lparr>kind = ''tcp'', address = ''gateway:22''\<rparr>,
           tunneledConnState = True\<rparr>"

definition tunR :: SSHTun where
  "tunR = tunL\<lparr>forwardType := Remote\<rparr>"

definition tunU :: SSHTun where
  "tunU = tunL\<lparr>forwardType := Undeclared 2\<rparr>"

text \<open>Both copies end at a clean end of stream and both closes succeed.\<close>

definition wClean :: world where
  "wClean = \<lparr>remoteAddr = ''127.0.0.1:50000'', dialResult = None,
             copyResult = (\<lambda>t. None), closeResult = (\<lambda>t. None), tunDone = False\<rparr>"

text \<open>The dial is refused.\<close>

definition wRefused :: world where
  "wRefused = wClean\<lparr>dialResult := Some ''connection refused''\<rparr>"

text \<open>The copy of task A fails; the copy of task B ends cleanly.\<close>

definition wResetA :: world where
  "wResetA = wClean\<lparr>copyResult := (\<lambda>t. case t of TaskA \<Rightarrow> Some ''reset'' | TaskB \<Rightarrow> None)\<rparr>"

text \<open>The copy of task B fails; the copy of task A ends cleanly.\<close>

definition wResetB :: world where
  "wResetB = wClean\<lparr>copyResult := (\<lambda>t. case t of TaskA \<Rightarrow> None | TaskB \<Rightarrow> Some ''reset'')\<rparr>"

text \<open>Both copies fail.\<close>

definition wResetAB :: world where
  "wResetAB = wClean\<lparr>copyResult := (\<lambda>t. Some ''reset'')\<rparr>"

text \<open>Task A runs to its return, then task B.\<close>

definition schedAB :: "task list" where
  "schedAB = [TaskA, TaskA, TaskA, TaskB, TaskB, TaskB]"

text \<open>Task B runs to its return, then task A.\<close>

definition schedBA :: "task list" where
  "schedBA = [TaskB, TaskB, TaskB, TaskA, TaskA, TaskA]"

text \<open>
  The copy of task A returns, then the copy of task B returns, and only then task A
  tests \<^verbatim>\<open>err\<close>.
\<close>

definition schedRace :: "task list" where
  "schedRace = [TaskA, TaskB, TaskA, TaskA, TaskB, TaskB]"

section \<open>Facts about traces\<close>

lemma notifications_append: "notifications (xs @ ys) = notifications xs @ notifications ys"
  by (induction xs rule: notifications.induct) simp_all

lemma notifications_tunneledState:
  "notifications (tunneledState tun st) = (if tunneledConnState tun then [st] else [])"
  by (simp add: tunneledState_def)

lemma first_error_append:
  "first_error (xs @ ys) = (case first_error xs of None \<Rightarrow> first_error ys | Some m \<Rightarrow> Some m)"
  by (induction xs rule: first_error.induct) simp_all

lemma first_error_tunneledState: "first_error (tunneledState tun st) = None"
  by (simp add: tunneledState_def)

lemma first_error_report_closed: "first_error (report_closed tun w from e) = None"
  by (simp add: report_closed_def first_error_append first_error_tunneledState split: option.splits)

lemma first_error_notify_accepted: "first_error (notify_accepted tun from) = None"
  by (simp add: notify_accepted_def first_error_tunneledState)

subsection \<open>Invariants of the pump\<close>

lemma step_notifications:
  "notifications (events (step tun w toConn t s)) = notifications (events s)"
  by (simp add: step_def finish_def notifications_append split: pc.splits)

lemma run_tasks_notifications:
  "notifications (events (run_tasks tun w toConn sched s)) = notifications (events s)"
  by (induction sched arbitrary: s) (simp_all add: step_notifications)

lemma step_groupErr:
  "groupErr s = first_error (events s) \<Longrightarrow>
   groupErr (step tun w toConn t s) = first_error (events (step tun w toConn t s))"
  by (cases "pcs s t")
     (auto simp: step_def finish_def first_error_append split: option.splits)

lemma run_tasks_groupErr:
  "groupErr s = first_error (events s) \<Longrightarrow>
   groupErr (run_tasks tun w toConn sched s) = first_error (events (run_tasks tun w toConn sched s))"
  by (induction sched arbitrary: s) (simp_all add: step_groupErr)

lemma returned_simps:
  "returned (Returned e)" "\<not> returned AtCopy" "\<not> returned AtTest"
  "\<not> returned (AtErrorf p)" "\<not> returned AtClose"
  by (simp_all add: returned_def)

lemma step_connCtxDone:
  assumes inv: "\<forall>t'. returned (pcs s t') \<longrightarrow> connCtxDone s"
    and ret: "returned (pcs (step tun w toConn t s) t')"
  shows "connCtxDone (step tun w toConn t s)"
proof (cases "t' = t")
  case True
  show ?thesis
  proof (cases "pcs s t")
    case (Returned e)
    then have "connCtxDone s" using inv returned_simps(1) by metis
    then show ?thesis using Returned by (simp add: step_def)
  qed (use ret True in \<open>auto simp: step_def finish_def returned_simps split: if_splits\<close>)
next
  case False
  then have "returned (pcs s t')" using ret by (cases "pcs s t") (simp_all add: step_def finish_def split: if_splits)
  then have "connCtxDone s" using inv by blast
  then show ?thesis by (cases "pcs s t") (simp_all add: step_def finish_def)
qed

lemma run_tasks_connCtxDone:
  "(\<forall>t'. returned (pcs s t') \<longrightarrow> connCtxDone s) \<Longrightarrow>
   returned (pcs (run_tasks tun w toConn sched s) t') \<Longrightarrow>
   connCtxDone (run_tasks tun w toConn sched s)"
proof (induction sched arbitrary: s)
  case Nil
  then show ?case by auto
next
  case (Cons t ts)
  have "\<forall>t'. returned (pcs (step tun w toConn t s) t') \<longrightarrow> connCtxDone (step tun w toConn t s)"
    using Cons.prems(1) step_connCtxDone by blast
  then show ?case using Cons.IH Cons.prems(2) by simp
qed

lemma step_no_panic:
  "\<not> panicked s \<Longrightarrow> \<not> panicked (step tun w (Some c) t s)"
  by (cases "pcs s t"; cases t) (simp_all add: step_def finish_def)

lemma run_tasks_no_panic:
  "\<not> panicked s \<Longrightarrow> \<not> panicked (run_tasks tun w (Some c) sched s)"
  by (induction sched arbitrary: s) (simp_all add: step_no_panic)

lemma step_other_pc: "t' \<noteq> t \<Longrightarrow> pcs (step tun w toConn t s) t' = pcs s t'"
  by (cases "pcs s t") (simp_all add: step_def finish_def)

lemma step_steps_left:
  "\<not> panicked s \<Longrightarrow>
   steps_left (pcs (step tun w (Some c) t s) t) \<le> steps_left (pcs s t) - 1"
  by (cases "pcs s t"; cases t) (simp_all add: step_def finish_def)

lemma step_steps_left_any:
  "\<not> panicked s \<Longrightarrow>
   steps_left (pcs (step tun w (Some c) t s) t') \<le> steps_left (pcs s t') - (if t' = t then 1 else 0)"
  using step_steps_left [of s tun w c t] step_other_pc [of t' t tun w "Some c" s]
  by (cases "t' = t") simp_all

lemma run_tasks_steps_left:
  "\<not> panicked s \<Longrightarrow>
   steps_left (pcs (run_tasks tun w (Some c) sched s) t') \<le> steps_left (pcs s t') - count_list sched t'"
proof (induction sched arbitrary: s)
  case Nil
  then show ?case by simp
next
  case (Cons t ts)
  let ?s = "step tun w (Some c) t s"
  have np: "\<not> panicked ?s" using Cons.prems by (rule step_no_panic)
  have "steps_left (pcs (run_tasks tun w (Some c) ts ?s) t') \<le> steps_left (pcs ?s t') - count_list ts t'"
    using Cons.IH [OF np] .
  moreover have "steps_left (pcs ?s t') \<le> steps_left (pcs s t') - (if t' = t then 1 else 0)"
    using Cons.prems by (rule step_steps_left_any)
  ultimately show ?case by auto
qed

lemma steps_left_0: "steps_left p = 0 \<Longrightarrow> returned p"
  by (cases p) (simp_all add: returned_def)

lemma steps_left_le_3: "steps_left p \<le> 3"
  by (cases p) simp_all

lemma run_tasks_returned:
  assumes "\<not> panicked s" and "3 \<le> count_list sched t'"
  shows "returned (pcs (run_tasks tun w (Some c) sched s) t')"
proof -
  have "steps_left (pcs (run_tasks tun w (Some c) sched s) t') \<le> steps_left (pcs s t') - count_list sched t'"
    using assms(1) by (rule run_tasks_steps_left)
  moreover have "steps_left (pcs s t') \<le> 3" by (rule steps_left_le_3)
  ultimately have "steps_left (pcs (run_tasks tun w (Some c) sched s) t') = 0"
    using assms(2) by linarith
  then show ?thesis by (rule steps_left_0)
qed

subsection \<open>What a call that returns has told the callback\<close>

lemma start_pump_simps:
  "groupErr (start_pump e evs) = None" "events (start_pump e evs) = evs"
  "\<not> panicked (start_pump e evs)" "pcs (start_pump e evs) t = AtCopy"
  "\<not> connCtxDone (start_pump e evs)"
  by (simp_all add: start_pump_def)

lemma pump_phase_Returns:
  assumes run: "pump_phase tun w sched from toConn e0 evs0 = (Returns, evs)"
    and quiet: "first_error evs0 = None"
  shows "notifications evs =
           notifications evs0 @ notifications (tunneledState tun (establishedState tun from))
           @ notifications (report_closed tun w from (first_error evs))"
proof -
  define s0 where "s0 = start_pump e0 (evs0 @ tunneledState tun (establishedState tun from))"
  define s where "s = run_tasks tun w toConn sched s0"
  have init: "groupErr s0 = first_error (events s0)"
    by (simp add: s0_def start_pump_simps first_error_append quiet first_error_tunneledState)
  have g: "groupErr s = first_error (events s)"
    unfolding s_def using init by (rule run_tasks_groupErr)
  have evs: "evs = events s @ report_closed tun w from (groupErr s)"
    using run unfolding pump_phase_def s_def s0_def Let_def by (simp split: if_splits)
  have fe: "first_error (events s @ report_closed tun w from (groupErr s)) = groupErr s"
    by (simp add: first_error_append first_error_report_closed g split: option.splits)
  have "notifications (events s) = notifications (events s0)"
    unfolding s_def by (rule run_tasks_notifications)
  then show ?thesis
    unfolding evs fe by (simp add: notifications_append s0_def start_pump_simps)
qed

lemma forward_dial_ok_notifications:
  assumes ft: "forwardType tun = Local \<or> forwardType tun = Remote"
    and dial: "dialResult w = None"
    and run: "forward tun w sched = (Returns, evs)"
  shows "notifications evs =
           notifications (notify_accepted tun (remoteAddr w))
           @ notifications (tunneledState tun (establishedState tun (remoteAddr w)))
           @ notifications (report_closed tun w (remoteAddr w) (first_error evs))"
proof -
  from ft show ?thesis
  proof
    assume l: "forwardType tun = Local"
    let ?evs0 = "notify_accepted tun (remoteAddr w)
                 @ [Dial SSHClientDial (endpoint_Type (remote tun)) (endpoint_String (remote tun))]"
    have "pump_phase tun w sched (remoteAddr w) (Some ToConn) None ?evs0 = (Returns, evs)"
      using run l dial by (simp add: forward_def Let_def)
    moreover have "first_error ?evs0 = None"
      by (simp add: first_error_append first_error_notify_accepted)
    ultimately show ?thesis
      using pump_phase_Returns by (fastforce simp: notifications_append)
  next
    assume r: "forwardType tun = Remote"
    let ?evs0 = "notify_accepted tun (remoteAddr w)
                 @ [Dial NetDial (endpoint_Type (local tun)) (endpoint_String (local tun))]"
    have "pump_phase tun w sched (remoteAddr w) (Some ToConn) None ?evs0 = (Returns, evs)"
      using run r dial by (simp add: forward_def Let_def)
    moreover have "first_error ?evs0 = None"
      by (simp add: first_error_append first_error_notify_accepted)
    ultimately show ?thesis
      using pump_phase_Returns by (fastforce simp: notifications_append)
  qed
qed

lemma forward_dial_ok_states:
  assumes ft: "forwardType tun = Local \<or> forwardType tun = Remote"
    and obs: "tunneledConnState tun"
    and dial: "dialResult w = None"
    and run: "forward tun w sched = (Returns, evs)"
  shows "notifications evs =
           acceptedState (remoteAddr w) (if forwardType tun = Local then local tun else remote tun)
           # establishedState tun (remoteAddr w)
           # (case first_error evs of
                Some m \<Rightarrow> if tunDone w then [] else [copyErrorState (remoteAddr w) m]
              | None \<Rightarrow> [])
           @ [closedState tun (remoteAddr w)]"
  using forward_dial_ok_notifications [OF ft dial run] ft obs
  by (auto simp: notify_accepted_def report_closed_def tunneledState_def notifications_append
           split: option.splits)

lemma forward_dial_failed_states:
  assumes ft: "forwardType tun = Local \<or> forwardType tun = Remote"
    and obs: "tunneledConnState tun"
    and dial: "dialResult w = Some cause"
  shows "forward tun w sched =
           (Returns,
            [State (acceptedState (remoteAddr w) (if forwardType tun = Local then local tun else remote tun)),
             if forwardType tun = Local
             then Dial SSHClientDial (endpoint_Type (remote tun)) (endpoint_String (remote tun))
             else Dial NetDial (endpoint_Type (local tun)) (endpoint_String (local tun)),
             State (if forwardType tun = Local
                    then dialFailedState (remoteAddr w) ''remote'' (remote tun) cause
                    else dialFailedState (remoteAddr w) ''local'' (local tun) cause),
             Close FromConn])"
  using ft obs dial
  by (auto simp: forward_def Let_def notify_accepted_def tunneledState_def)

lemma classify_simps:
  "classify (acceptedState from ep) = Some Accepted"
  "classify (dialFailedState from side ep cause) = Some DialFailed"
  "classify (establishedState tun from) = Some Established"
  "classify (copyErrorState from m) = Some ClosedWithError"
  "classify (closedState tun from) = Some ClosedFinal"
  by (simp_all add: classify_def acceptedState_def dialFailedState_def establishedState_def
        copyErrorState_def closedState_def Errorf_w_def)

lemma flag_simps:
  "\<not> Ready (acceptedState from ep)" "\<not> Closed (acceptedState from ep)"
  "\<not> Ready (dialFailedState from side ep cause)" "\<not> Closed (dialFailedState from side ep cause)"
  "Ready (establishedState tun from)" "\<not> Closed (establishedState tun from)"
  "\<not> Ready (copyErrorState from m)" "Closed (copyErrorState from m)"
  "\<not> Ready (closedState tun from)" "Closed (closedState tun from)"
  by (simp_all add: acceptedState_def dialFailedState_def establishedState_def
        copyErrorState_def closedState_def)

lemma error_simps:
  "Error (acceptedState from ep) = None"
  "Error (establishedState tun from) = None"
  "Error (copyErrorState from m) = Some m"
  "Error (closedState tun from) = None"
  "Error (dialFailedState from side ep cause) \<noteq> None"
  by (simp_all add: acceptedState_def establishedState_def copyErrorState_def closedState_def
        dialFailedState_def Errorf_w_def)

subsection \<open>When the call returns, and when it panics\<close>

text \<open>
  Every task takes at most three steps, so a schedule that names each task three times
  lets both return; \<^verbatim>\<open>Wait\<close> then returns, and the connection context has been
  cancelled by then.
\<close>

lemma forward_returns:
  assumes ft: "forwardType tun = Local \<or> forwardType tun = Remote"
    and fair: "3 \<le> count_list sched TaskA" "3 \<le> count_list sched TaskB"
  shows "fst (forward tun w sched) = Returns"
proof (cases "dialResult w")
  case (Some cause)
  then show ?thesis using ft by (auto simp: forward_def Let_def)
next
  case None
  define s where "s = run_tasks tun w (Some ToConn) sched"
  have "\<And>s0. \<not> panicked s0 \<Longrightarrow> (\<forall>t'. returned (pcs s0 t') \<longrightarrow> connCtxDone s0) \<Longrightarrow>
          \<not> panicked (s s0) \<and> returned (pcs (s s0) TaskA) \<and> returned (pcs (s s0) TaskB)
          \<and> connCtxDone (s s0)"
    unfolding s_def
    using run_tasks_no_panic run_tasks_returned fair run_tasks_connCtxDone by blast
  then have "\<And>e evs. fst (pump_phase tun w sched (remoteAddr w) (Some ToConn) e evs) = Returns"
    unfolding pump_phase_def s_def Let_def
    by (simp add: start_pump_simps returned_simps)
  then show ?thesis using ft None by (auto simp: forward_def Let_def)
qed

lemma run_tasks_panicked: "panicked s \<Longrightarrow> run_tasks tun w toConn sched s = s"
  by (induction sched arbitrary: s) (simp_all add: step_def)

lemma forward_no_panic:
  assumes ft: "forwardType tun = Local \<or> forwardType tun = Remote"
  shows "fst (forward tun w sched) \<noteq> Panics"
proof (cases "dialResult w")
  case (Some cause)
  then show ?thesis using ft by (auto simp: forward_def Let_def)
next
  case None
  have "\<And>e evs. fst (pump_phase tun w sched (remoteAddr w) (Some ToConn) e evs) \<noteq> Panics"
    unfolding pump_phase_def Let_def
    using run_tasks_no_panic [of "start_pump _ _" tun w ToConn sched]
    by (simp add: start_pump_simps)
  then show ?thesis using ft None by (auto simp: forward_def Let_def)
qed

section \<open>The order of notifications\<close>

text \<open>
  C1. With a forward type of Local or Remote and a callback registered, a call that
  returns has handed the callback exactly one of three sequences: accepted, dial-failed
  (when the dial failed); accepted, established, closed-with-error, closed (when the dial
  succeeded, a copy task returned an error and the tunnel's context was not done); or
  accepted, established, closed (otherwise). The established state is the only one with
  \<^verbatim>\<open>Ready\<close> set, and the closed-with-error and closed states are the only ones with
  \<^verbatim>\<open>Closed\<close> set.
\<close>

theorem notification_order:
  assumes ft: "forwardType tun = Local \<or> forwardType tun = Remote"
    and obs: "tunneledConnState tun"
    and run: "forward tun w sched = (Returns, evs)"
  shows "map classify (notifications evs) =
           (case dialResult w of
              Some cause \<Rightarrow> [Some Accepted, Some DialFailed]
            | None \<Rightarrow>
                if first_error evs \<noteq> None \<and> \<not> tunDone w
                then [Some Accepted, Some Established, Some ClosedWithError, Some ClosedFinal]
                else [Some Accepted, Some Established, Some ClosedFinal])
         \<and> map classify (filter Ready (notifications evs)) =
             (case dialResult w of Some cause \<Rightarrow> [] | None \<Rightarrow> [Some Established])
         \<and> map classify (filter Closed (notifications evs)) =
             (case dialResult w of
                Some cause \<Rightarrow> []
              | None \<Rightarrow>
                  if first_error evs \<noteq> None \<and> \<not> tunDone w
                  then [Some ClosedWithError, Some ClosedFinal]
                  else [Some ClosedFinal])"
proof (cases "dialResult w")
  case None
  have "notifications evs =
           acceptedState (remoteAddr w) (if forwardType tun = Local then local tun else remote tun)
           # establishedState tun (remoteAddr w)
           # (case first_error evs of
                Some m \<Rightarrow> if tunDone w then [] else [copyErrorState (remoteAddr w) m]
              | None \<Rightarrow> [])
           @ [closedState tun (remoteAddr w)]"
    using ft obs None run by (rule forward_dial_ok_states)
  then show ?thesis
    using None by (simp add: classify_simps flag_simps split: option.splits)
next
  case (Some cause)
  have "evs = [State (acceptedState (remoteAddr w) (if forwardType tun = Local then local tun else remote tun)),
             if forwardType tun = Local
             then Dial SSHClientDial (endpoint_Type (remote tun)) (endpoint_String (remote tun))
             else Dial NetDial (endpoint_Type (local tun)) (endpoint_String (local tun)),
             State (if forwardType tun = Local
                    then dialFailedState (remoteAddr w) ''remote'' (remote tun) cause
                    else dialFailedState (remoteAddr w) ''local'' (local tun) cause),
             Close FromConn]"
    using forward_dial_failed_states [OF ft obs Some, of sched] run by simp
  then show ?thesis
    using Some by (simp add: classify_simps flag_simps)
qed

theorem notification_order_witness:
  "(forwardType tunL = Local \<or> forwardType tunL = Remote) \<and> tunneledConnState tunL
   \<and> fst (forward tunL wResetB schedBA) = Returns
   \<and> map classify (notifications (snd (forward tunL wResetB schedBA)))
       = [Some Accepted, Some Established, Some ClosedWithError, Some ClosedFinal]
   \<and> fst (forward tunL wClean schedAB) = Returns
   \<and> map classify (notifications (snd (forward tunL wClean schedAB)))
       = [Some Accepted, Some Established, Some ClosedFinal]
   \<and> fst (forward tunL wRefused schedAB) = Returns
   \<and> map classify (notifications (snd (forward tunL wRefused schedAB)))
       = [Some Accepted, Some DialFailed]"
proof -
  have ft: "forwardType tunL = Local \<or> forwardType tunL = Remote"
    and obs: "tunneledConnState tunL"
    by (simp_all add: tunL_def)
  have f1: "fst (forward tunL wResetB schedBA) = Returns"
    and f2: "fst (forward tunL wClean schedAB) = Returns"
    and f3: "fst (forward tunL wRefused schedAB) = Returns"
    by code_simp+
  have r1: "forward tunL wResetB schedBA = (Returns, snd (forward tunL wResetB schedBA))"
    and r2: "forward tunL wClean schedAB = (Returns, snd (forward tunL wClean schedAB))"
    and r3: "forward tunL wRefused schedAB = (Returns, snd (forward tunL wRefused schedAB))"
    using f1 f2 f3 by (simp_all add: prod_eq_iff)
  have e1: "first_error (snd (forward tunL wResetB schedBA)) \<noteq> None"
    and e2: "first_error (snd (forward tunL wClean schedAB)) = None"
    by code_simp+
  have d1: "dialResult wResetB = None" and t1: "\<not> tunDone wResetB"
    and d2: "dialResult wClean = None"
    and d3: "dialResult wRefused = Some ''connection refused''"
    by (simp_all add: wResetB_def wClean_def wRefused_def)
  have c1: "map classify (notifications (snd (forward tunL wResetB schedBA)))
       = [Some Accepted, Some Established, Some ClosedWithError, Some ClosedFinal]"
    using notification_order [OF ft obs r1] e1 d1 t1 by simp
  have c2: "map classify (notifications (snd (forward tunL wClean schedAB)))
       = [Some Accepted, Some Established, Some ClosedFinal]"
    using notification_order [OF ft obs r2] e2 d2 by simp
  have c3: "map classify (notifications (snd (forward tunL wRefused schedAB)))
       = [Some Accepted, Some DialFailed]"
    using notification_order [OF ft obs r3] d3 by simp
  show ?thesis by (intro conjI; fact)
qed

section \<open>Closing the other side\<close>

text \<open>
  C2. The spec has each task close the connection that the other task reads from when
  it finishes, on a clean end of stream and on a copy error alike. The code closes only
  on the path where the test \<^verbatim>\<open>err != nil\<close> fails: lines 98, 100, 111 and 113
  return the wrapped error before \<^verbatim>\<open>Close\<close> is reached. In the run below the copy of
  task A fails, and task A returns without \<^verbatim>\<open>Close ToConn\<close>; task B, whose copy
  ends cleanly, does close the accepted connection.
\<close>

theorem error_return_skips_close:
  "copyResult wResetA TaskA = Some ''reset''
   \<and> forward tunL wResetA schedAB =
  (Returns,
  [State \<lparr>From = ''127.0.0.1:50000'', Info = ''accepted tcp connection'',
       Error = None, Ready = False, Closed = False\<rparr>,
   Dial SSHClientDial ''tcp'' ''10.0.0.1:9999'',
   State \<lparr>From = ''127.0.0.1:50000'',
       Info = ''connection established: 127.0.0.1:50000 -(tcp)> 127.0.0.1:8080 -(ssh)> gateway:22 -(tcp)> 10.0.0.1:9999'',
       Error = None, Ready = True, Closed = False\<rparr>,
   Copy TaskA (Some ToConn) (Some FromConn),
   Return TaskA (Some ''failed copying bytes from remote to local: reset''),
   Copy TaskB (Some FromConn) (Some ToConn),
   Close FromConn,
   Return TaskB None,
   State \<lparr>From = ''127.0.0.1:50000'', Info = [],
       Error = Some ''failed copying bytes from remote to local: reset'',
       Ready = False, Closed = True\<rparr>,
   State \<lparr>From = ''127.0.0.1:50000'',
       Info = ''connection closed: 127.0.0.1:50000 -(tcp)> 127.0.0.1:8080 -(ssh)> gateway:22 -(tcp)> 10.0.0.1:9999'',
       Error = None, Ready = False, Closed = True\<rparr>])"
  by code_simp

text \<open>
  C3. The spec has both connections closed exactly once by the time the call returns,
  whichever direction failed first. When both copies fail, the call returns after both
  tasks have returned and no connection has been closed; when only the copy of task A
  fails, the dialed connection is never closed.
\<close>

theorem connections_left_open:
  "fst (forward tunL wResetAB schedAB) = Returns
   \<and> returned_tasks (snd (forward tunL wResetAB schedAB)) = [TaskA, TaskB]
   \<and> closes (snd (forward tunL wResetAB schedAB)) = []
   \<and> fst (forward tunL wResetA schedAB) = Returns
   \<and> closes (snd (forward tunL wResetA schedAB)) = [FromConn]"
  by code_simp

section \<open>Dial failure\<close>

text \<open>
  C4. When the dial fails, the call returns after exactly these actions: the accepted
  notification, the dial, one notification whose error is
  \<^verbatim>\<open>remote dial <kind> to <address> failed: <cause>\<close> under Local forwarding (through
  the SSH client) and \<^verbatim>\<open>local dial <kind> to <address> failed: <cause>\<close> under Remote
  forwarding (through the plain dialer), with \<^verbatim>\<open>Ready\<close> and \<^verbatim>\<open>Closed\<close> false,
  and the close of the accepted connection. No copy runs and neither an established nor
  a closed notification is sent.
\<close>

theorem dial_failure_trace:
  "(forwardType tun = Local \<and> dialResult w = Some cause \<longrightarrow>
      forward tun w sched =
        (Returns,
         tunneledState tun
           \<lparr>From = remoteAddr w, Info = ''accepted '' @ kind (local tun) @ '' connection'',
            Error = None, Ready = False, Closed = False\<rparr>
         @ [Dial SSHClientDial (kind (remote tun)) (address (remote tun))]
         @ tunneledState tun
             \<lparr>From = remoteAddr w, Info = [],
              Error = Some (''remote dial '' @ kind (remote tun) @ '' to ''
                            @ address (remote tun) @ '' failed: '' @ cause),
              Ready = False, Closed = False\<rparr>
         @ [Close FromConn]))
   \<and> (forwardType tun = Remote \<and> dialResult w = Some cause \<longrightarrow>
      forward tun w sched =
        (Returns,
         tunneledState tun
           \<lparr>From = remoteAddr w, Info = ''accepted '' @ kind (remote tun) @ '' connection'',
            Error = None, Ready = False, Closed = False\<rparr>
         @ [Dial NetDial (kind (local tun)) (address (local tun))]
         @ tunneledState tun
             \<lparr>From = remoteAddr w, Info = [],
              Error = Some (''local dial '' @ kind (local tun) @ '' to ''
                            @ address (local tun) @ '' failed: '' @ cause),
              Ready = False, Closed = False\<rparr>
         @ [Close FromConn]))"
  by (simp add: forward_def Let_def notify_accepted_def dialFailedState_def acceptedState_def
        Errorf_w_def endpoint_Type_def endpoint_String_def)

theorem dial_failure_trace_witness:
  "forwardType tunL = Local \<and> dialResult wRefused = Some ''connection refused''
   \<and> forward tunL wRefused schedAB =
       (Returns,
        [State \<lparr>From = ''127.0.0.1:50000'', Info = ''accepted tcp connection'',
                Error = None, Ready = False, Closed = False\<rparr>,
         Dial SSHClientDial ''tcp'' ''10.0.0.1:9999'',
         State \<lparr>From = ''127.0.0.1:50000'', Info = [],
                Error = Some ''remote dial tcp to 10.0.0.1:9999 failed: connection refused'',
                Ready = False, Closed = False\<rparr>,
         Close FromConn])
   \<and> forwardType tunR = Remote
   \<and> forward tunR wRefused schedAB =
       (Returns,
        [State \<lparr>From = ''127.0.0.1:50000'', Info = ''accepted tcp connection'',
                Error = None, Ready = False, Closed = False\<rparr>,
         Dial NetDial ''tcp'' ''127.0.0.1:8080'',
         State \<lparr>From = ''127.0.0.1:50000'', Info = [],
                Error = Some ''local dial tcp to 127.0.0.1:8080 failed: connection refused'',
                Ready = False, Closed = False\<rparr>,
         Close FromConn])"
proof -
  have l: "forwardType tunL = Local" and r: "forwardType tunR = Remote"
    and d: "dialResult wRefused = Some ''connection refused''"
    by (simp_all add: tunL_def tunR_def wRefused_def wClean_def)
  have "forward tunL wRefused schedAB =
       (Returns,
        [State \<lparr>From = ''127.0.0.1:50000'', Info = ''accepted tcp connection'',
                Error = None, Ready = False, Closed = False\<rparr>,
         Dial SSHClientDial ''tcp'' ''10.0.0.1:9999'',
         State \<lparr>From = ''127.0.0.1:50000'', Info = [],
                Error = Some ''remote dial tcp to 10.0.0.1:9999 failed: connection refused'',
                Ready = False, Closed = False\<rparr>,
         Close FromConn])"
    using dial_failure_trace [of tunL wRefused "''connection refused''" schedAB] l d
    by (simp add: tunL_def wRefused_def wClean_def tunneledState_def)
  moreover have "forward tunR wRefused schedAB =
       (Returns,
        [State \<lparr>From = ''127.0.0.1:50000'', Info = ''accepted tcp connection'',
                Error = None, Ready = False, Closed = False\<rparr>,
         Dial NetDial ''tcp'' ''127.0.0.1:8080'',
         State \<lparr>From = ''127.0.0.1:50000'', Info = [],
                Error = Some ''local dial tcp to 127.0.0.1:8080 failed: connection refused'',
                Ready = False, Closed = False\<rparr>,
         Close FromConn])"
    using dial_failure_trace [of tunR wRefused "''connection refused''" schedAB] r d
    by (simp add: tunR_def tunL_def wRefused_def wClean_def tunneledState_def)
  ultimately show ?thesis using l r d by simp
qed

section \<open>Which copy error reaches the callback\<close>

text \<open>
  C5. After a successful dial, a call that returns has sent at most one notification
  with an error: none when no task returned an error, none when the tunnel's context
  was done at the \<^verbatim>\<open>select\<close>, and otherwise exactly one, with \<^verbatim>\<open>Closed\<close> set,
  carrying the first error that a task returned. In every case the last notification is
  the closed state, which has no error.
\<close>

theorem copy_error_surfacing:
  assumes ft: "forwardType tun = Local \<or> forwardType tun = Remote"
    and obs: "tunneledConnState tun"
    and dial: "dialResult w = None"
    and run: "forward tun w sched = (Returns, evs)"
  shows "filter (\<lambda>st. Error st \<noteq> None) (notifications evs) =
           (case first_error evs of
              None \<Rightarrow> []
            | Some m \<Rightarrow>
                if tunDone w then []
                else [\<lparr>From = remoteAddr w, Info = [], Error = Some m,
                       Ready = False, Closed = True\<rparr>])
         \<and> last (notifications evs) = closedState tun (remoteAddr w)
         \<and> Error (closedState tun (remoteAddr w)) = None
         \<and> Closed (closedState tun (remoteAddr w))"
  using forward_dial_ok_states [OF ft obs dial run]
  by (simp add: error_simps flag_simps split: option.splits) (simp add: copyErrorState_def)

theorem copy_error_surfacing_witness:
  "(forwardType tunL = Local \<or> forwardType tunL = Remote) \<and> tunneledConnState tunL
   \<and> dialResult wResetAB = None \<and> fst (forward tunL wResetAB schedBA) = Returns
   \<and> \<not> tunDone wResetAB
   \<and> first_error (snd (forward tunL wResetAB schedBA))
       = Some ''failed copying bytes from local to remote: reset''
   \<and> filter (\<lambda>st. Error st \<noteq> None) (notifications (snd (forward tunL wResetAB schedBA)))
       = [\<lparr>From = ''127.0.0.1:50000'', Info = [],
           Error = Some ''failed copying bytes from local to remote: reset'',
           Ready = False, Closed = True\<rparr>]
   \<and> dialResult (wResetAB\<lparr>tunDone := True\<rparr>) = None
   \<and> fst (forward tunL (wResetAB\<lparr>tunDone := True\<rparr>) schedBA) = Returns
   \<and> filter (\<lambda>st. Error st \<noteq> None)
        (notifications (snd (forward tunL (wResetAB\<lparr>tunDone := True\<rparr>) schedBA))) = []
   \<and> last (notifications (snd (forward tunL (wResetAB\<lparr>tunDone := True\<rparr>) schedBA)))
       = closedState tunL ''127.0.0.1:50000''"
proof -
  let ?w = "wResetAB\<lparr>tunDone := True\<rparr>"
  have ft: "forwardType tunL = Local \<or> forwardType tunL = Remote"
    and obs: "tunneledConnState tunL"
    by (simp_all add: tunL_def)
  have d1: "dialResult wResetAB = None" and t1: "\<not> tunDone wResetAB"
    and a1: "remoteAddr wResetAB = ''127.0.0.1:50000''"
    and d2: "dialResult ?w = None" and t2: "tunDone ?w"
    and a2: "remoteAddr ?w = ''127.0.0.1:50000''"
    by (simp_all add: wResetAB_def wClean_def)
  have f1: "fst (forward tunL wResetAB schedBA) = Returns"
    and f2: "fst (forward tunL ?w schedBA) = Returns"
    by code_simp+
  have r1: "forward tunL wResetAB schedBA = (Returns, snd (forward tunL wResetAB schedBA))"
    and r2: "forward tunL ?w schedBA = (Returns, snd (forward tunL ?w schedBA))"
    using f1 f2 by (simp_all add: prod_eq_iff)
  have e1: "first_error (snd (forward tunL wResetAB schedBA))
              = Some ''failed copying bytes from local to remote: reset''"
    by code_simp
  have c1: "filter (\<lambda>st. Error st \<noteq> None) (notifications (snd (forward tunL wResetAB schedBA)))
       = [\<lparr>From = ''127.0.0.1:50000'', Info = [],
           Error = Some ''failed copying bytes from local to remote: reset'',
           Ready = False, Closed = True\<rparr>]"
    using copy_error_surfacing [OF ft obs d1 r1] e1 t1 a1 by simp
  have c2: "filter (\<lambda>st. Error st \<noteq> None) (notifications (snd (forward tunL ?w schedBA))) = []"
    and c3: "last (notifications (snd (forward tunL ?w schedBA))) = closedState tunL ''127.0.0.1:50000''"
    using copy_error_surfacing [OF ft obs d2 r2] t2 a2 by (simp_all split: option.splits)
  show ?thesis by (intro conjI; fact)
qed

section \<open>The label of a copy error\<close>

text \<open>
  C6. The spec labels an error of the copy that reads from the dialed (remote)
  connection and writes to the accepted (local) one, under Local forwarding, as
  \<^verbatim>\<open>remote to local\<close>. That copy is \<^verbatim>\<open>io.Copy(fromConn, toConn)\<close> of task B,
  and line 111 labels it \<^verbatim>\<open>local to remote\<close>. In the run below only the copy of
  task B fails (destination \<open>FromConn\<close>, source \<open>ToConn\<close>), and the error that
  reaches the callback reads \<^verbatim>\<open>failed copying bytes from local to remote: reset\<close>.
\<close>

theorem copy_label_swapped:
  "forward tunL wResetB schedBA =
  (Returns,
  [State \<lparr>From = ''127.0.0.1:50000'', Info = ''accepted tcp connection'',
       Error = None, Ready = False, Closed = False\<rparr>,
   Dial SSHClientDial ''tcp'' ''10.0.0.1:9999'',
   State \<lparr>From = ''127.0.0.1:50000'',
       Info = ''connection established: 127.0.0.1:50000 -(tcp)> 127.0.0.1:8080 -(ssh)> gateway:22 -(tcp)> 10.0.0.1:9999'',
       Error = None, Ready = True, Closed = False\<rparr>,
   Copy TaskB (Some FromConn) (Some ToConn),
   Return TaskB (Some ''failed copying bytes from local to remote: reset''),
   Copy TaskA (Some ToConn) (Some FromConn),
   Close ToConn,
   Return TaskA None,
   State \<lparr>From = ''127.0.0.1:50000'', Info = [],
       Error = Some ''failed copying bytes from local to remote: reset'',
       Ready = False, Closed = True\<rparr>,
   State \<lparr>From = ''127.0.0.1:50000'',
       Info = ''connection closed: 127.0.0.1:50000 -(tcp)> 127.0.0.1:8080 -(ssh)> gateway:22 -(tcp)> 10.0.0.1:9999'',
       Error = None, Ready = False, Closed = True\<rparr>])"
  by code_simp

section \<open>The closing notification\<close>

text \<open>
  C7, as stated, fails: when the dial is refused the call returns and no notification
  has \<^verbatim>\<open>Closed\<close> set.
\<close>

theorem closed_notification_counterexample:
  "fst (forward tunL wRefused schedAB) = Returns
   \<and> filter Closed (notifications (snd (forward tunL wRefused schedAB))) = []"
  by code_simp

text \<open>
  C7, amended. With a forward type of Local or Remote and a callback registered, a call
  that returns after a successful dial has sent a last notification with \<^verbatim>\<open>Closed\<close>
  set and \<^verbatim>\<open>Ready\<close> clear, whether or not a copy error was reported. After a failed
  dial no notification has \<^verbatim>\<open>Closed\<close> set; the last notification carries the dial
  error.
\<close>

theorem closed_notification:
  assumes ft: "forwardType tun = Local \<or> forwardType tun = Remote"
    and obs: "tunneledConnState tun"
    and run: "forward tun w sched = (Returns, evs)"
  shows "(dialResult w = None \<longrightarrow>
            notifications evs \<noteq> [] \<and> Closed (last (notifications evs))
            \<and> \<not> Ready (last (notifications evs)))
         \<and> (dialResult w \<noteq> None \<longrightarrow>
            filter Closed (notifications evs) = []
            \<and> notifications evs \<noteq> [] \<and> Error (last (notifications evs)) \<noteq> None)"
proof (cases "dialResult w")
  case None
  then show ?thesis
    using forward_dial_ok_states [OF ft obs None run] by (simp add: flag_simps)
next
  case (Some cause)
  then show ?thesis
    using forward_dial_failed_states [OF ft obs Some, of sched] run
    by (auto simp: flag_simps dialFailedState_def Errorf_w_def)
qed

theorem closed_notification_witness:
  "(forwardType tunL = Local \<or> forwardType tunL = Remote) \<and> tunneledConnState tunL
   \<and> dialResult wClean = None \<and> fst (forward tunL wClean schedAB) = Returns
   \<and> notifications (snd (forward tunL wClean schedAB)) \<noteq> []
   \<and> Closed (last (notifications (snd (forward tunL wClean schedAB))))
   \<and> \<not> Ready (last (notifications (snd (forward tunL wClean schedAB))))
   \<and> dialResult wRefused \<noteq> None \<and> fst (forward tunL wRefused schedAB) = Returns
   \<and> filter Closed (notifications (snd (forward tunL wRefused schedAB))) = []
   \<and> Error (last (notifications (snd (forward tunL wRefused schedAB)))) \<noteq> None"
proof -
  have ft: "forwardType tunL = Local \<or> forwardType tunL = Remote"
    and obs: "tunneledConnState tunL"
    by (simp_all add: tunL_def)
  have d1: "dialResult wClean = None" and d2: "dialResult wRefused \<noteq> None"
    by (simp_all add: wClean_def wRefused_def)
  have f1: "fst (forward tunL wClean schedAB) = Returns"
    and f2: "fst (forward tunL wRefused schedAB) = Returns"
    by code_simp+
  have r1: "forward tunL wClean schedAB = (Returns, snd (forward tunL wClean schedAB))"
    and r2: "forward tunL wRefused schedAB = (Returns, snd (forward tunL wRefused schedAB))"
    using f1 f2 by (simp_all add: prod_eq_iff)
  have c1: "notifications (snd (forward tunL wClean schedAB)) \<noteq> []"
    and c2: "Closed (last (notifications (snd (forward tunL wClean schedAB))))"
    and c3: "\<not> Ready (last (notifications (snd (forward tunL wClean schedAB))))"
    using closed_notification [OF ft obs r1] d1 by simp_all
  have c4: "filter Closed (notifications (snd (forward tunL wRefused schedAB))) = []"
    and c5: "Error (last (notifications (snd (forward tunL wRefused schedAB)))) \<noteq> None"
    using closed_notification [OF ft obs r2] d2 by simp_all
  show ?thesis by (intro conjI; fact)
qed

section \<open>The connection descriptor\<close>

text \<open>
  C8. After a successful dial, the one notification with \<^verbatim>\<open>Ready\<close> set has the
  info \<^verbatim>\<open>connection established: <descriptor>\<close> and the last notification has the
  info \<^verbatim>\<open>connection closed: <descriptor>\<close> with the same descriptor,
  \<^verbatim>\<open>from -(localKind)> localAddr -(ssh)> serverAddr -(remoteKind)> remoteAddr\<close>.
\<close>

theorem descriptor_correlates:
  assumes ft: "forwardType tun = Local \<or> forwardType tun = Remote"
    and obs: "tunneledConnState tun"
    and dial: "dialResult w = None"
    and run: "forward tun w sched = (Returns, evs)"
  shows "map Info (filter Ready (notifications evs))
           = [''connection established: '' @ connStr tun (remoteAddr w)]
         \<and> Info (last (notifications evs)) = ''connection closed: '' @ connStr tun (remoteAddr w)
         \<and> Closed (last (notifications evs)) \<and> Error (last (notifications evs)) = None
         \<and> connStr tun (remoteAddr w) =
             remoteAddr w @ '' -('' @ kind (local tun) @ '')> '' @ address (local tun)
             @ '' -(ssh)> '' @ address (server tun)
             @ '' -('' @ kind (remote tun) @ '')> '' @ address (remote tun)"
proof -
  have "Info (establishedState tun (remoteAddr w)) = ''connection established: '' @ connStr tun (remoteAddr w)"
    and "Info (closedState tun (remoteAddr w)) = ''connection closed: '' @ connStr tun (remoteAddr w)"
    by (simp_all add: establishedState_def closedState_def)
  then show ?thesis
    using forward_dial_ok_states [OF ft obs dial run]
    by (simp add: flag_simps error_simps connStr_def endpoint_Type_def endpoint_String_def
          split: option.splits)
qed

theorem descriptor_correlates_witness:
  "(forwardType tunR = Local \<or> forwardType tunR = Remote) \<and> tunneledConnState tunR
   \<and> dialResult wClean = None \<and> fst (forward tunR wClean schedBA) = Returns
   \<and> map Info (filter Ready (notifications (snd (forward tunR wClean schedBA))))
       = [''connection established: 127.0.0.1:50000 -(tcp)> 127.0.0.1:8080 -(ssh)> gateway:22 -(tcp)> 10.0.0.1:9999'']
   \<and> Info (last (notifications (snd (forward tunR wClean schedBA))))
       = ''connection closed: 127.0.0.1:50000 -(tcp)> 127.0.0.1:8080 -(ssh)> gateway:22 -(tcp)> 10.0.0.1:9999''"
proof -
  have ft: "forwardType tunR = Local \<or> forwardType tunR = Remote"
    and obs: "tunneledConnState tunR"
    by (simp_all add: tunR_def tunL_def)
  have d: "dialResult wClean = None" by (simp add: wClean_def)
  have f: "fst (forward tunR wClean schedBA) = Returns" by code_simp
  have r: "forward tunR wClean schedBA = (Returns, snd (forward tunR wClean schedBA))"
    using f by (simp add: prod_eq_iff)
  have s: "connStr tunR (remoteAddr wClean)
             = ''127.0.0.1:50000 -(tcp)> 127.0.0.1:8080 -(ssh)> gateway:22 -(tcp)> 10.0.0.1:9999''"
    by code_simp
  have c1: "map Info (filter Ready (notifications (snd (forward tunR wClean schedBA))))
       = [''connection established: 127.0.0.1:50000 -(tcp)> 127.0.0.1:8080 -(ssh)> gateway:22 -(tcp)> 10.0.0.1:9999'']"
    and c2: "Info (last (notifications (snd (forward tunR wClean schedBA))))
       = ''connection closed: 127.0.0.1:50000 -(tcp)> 127.0.0.1:8080 -(ssh)> gateway:22 -(tcp)> 10.0.0.1:9999''"
    using descriptor_correlates [OF ft obs d r] unfolding s by simp_all
  show ?thesis by (intro conjI; fact)
qed

section \<open>The shared variable of the two tasks\<close>

text \<open>
  C9. The spec names the retained-error slot and the cancellation signal as the only
  state the two tasks share. Both closures also assign and read the variable \<^verbatim>\<open>err\<close>
  of \<^verbatim>\<open>forward\<close> (lines 95, 96, 98 and 108, 109, 111) with no synchronisation. The
  two runs below have the same results of \<^verbatim>\<open>io.Copy\<close> (task A ends cleanly, task B
  fails), the copies return in the same order and the tasks return in the same order.
  In the second run the assignment of task B falls between the assignment and the test
  of task A: task A then reports the error of task B under its own label, skips its
  \<^verbatim>\<open>Close\<close>, and a different error reaches the callback.
\<close>

theorem shared_err_race:
  "copyResult wResetB TaskA = None
   \<and> copies (snd (forward tunL wResetB schedAB)) = copies (snd (forward tunL wResetB schedRace))
   \<and> returned_tasks (snd (forward tunL wResetB schedAB)) = [TaskA, TaskB]
   \<and> returned_tasks (snd (forward tunL wResetB schedRace)) = [TaskA, TaskB]
   \<and> map Error (filter Closed (notifications (snd (forward tunL wResetB schedAB))))
       = [Some ''failed copying bytes from local to remote: reset'', None]
   \<and> map Error (filter Closed (notifications (snd (forward tunL wResetB schedRace))))
       = [Some ''failed copying bytes from remote to local: reset'', None]
   \<and> closes (snd (forward tunL wResetB schedAB)) = [ToConn]
   \<and> closes (snd (forward tunL wResetB schedRace)) = []"
  by code_simp

section \<open>A forward type that is neither Local nor Remote\<close>

text \<open>
  C10. With a forward type of Local or Remote the call never panics. With any other
  forward type the trace has no accepted notification and no dial; the established
  notification is sent, and whichever task moves first calls \<^verbatim>\<open>io.Copy\<close> with a
  nil connection as the dialed side, which panics. While no task has moved, the call is
  blocked after the established notification.
\<close>

theorem undeclared_forward_type:
  "(forwardType tun = Local \<or> forwardType tun = Remote \<longrightarrow> fst (forward tun w sched) \<noteq> Panics)
   \<and> (forwardType tun \<noteq> Local \<and> forwardType tun \<noteq> Remote \<longrightarrow>
        forward tun w (TaskA # sched) =
          (Panics, tunneledState tun (establishedState tun (remoteAddr w))
                   @ [Copy TaskA None (Some FromConn)])
        \<and> forward tun w (TaskB # sched) =
          (Panics, tunneledState tun (establishedState tun (remoteAddr w))
                   @ [Copy TaskB (Some FromConn) None])
        \<and> forward tun w [] =
          (Blocks, tunneledState tun (establishedState tun (remoteAddr w))))"
proof -
  have a: "fst (forward tun w sched) \<noteq> Panics"
    if "forwardType tun = Local \<or> forwardType tun = Remote"
    using that by (rule forward_no_panic)
  have b: "forward tun w (TaskA # sched) =
          (Panics, tunneledState tun (establishedState tun (remoteAddr w))
                   @ [Copy TaskA None (Some FromConn)])"
    and c: "forward tun w (TaskB # sched) =
          (Panics, tunneledState tun (establishedState tun (remoteAddr w))
                   @ [Copy TaskB (Some FromConn) None])"
    and d: "forward tun w [] =
          (Blocks, tunneledState tun (establishedState tun (remoteAddr w)))"
    if "forwardType tun \<noteq> Local" "forwardType tun \<noteq> Remote"
    using that
    by (simp_all add: forward_def Let_def notify_accepted_def pump_phase_def start_pump_def
          step_def run_tasks_panicked returned_def)
  show ?thesis using a b c d by blast
qed

theorem undeclared_forward_type_witness:
  "(forwardType tunL = Local \<or> forwardType tunL = Remote)
   \<and> fst (forward tunL wClean schedRace) \<noteq> Panics
   \<and> forwardType tunU \<noteq> Local \<and> forwardType tunU \<noteq> Remote
   \<and> forward tunU wClean (TaskA # schedAB) =
       (Panics,
        [State \<lparr>From = ''127.0.0.1:50000'',
                Info = ''connection established: 127.0.0.1:50000 -(tcp)> 127.0.0.1:8080 -(ssh)> gateway:22 -(tcp)> 10.0.0.1:9999'',
                Error = None, Ready = True, Closed = False\<rparr>,
         Copy TaskA None (Some FromConn)])
   \<and> forward tunU wClean (TaskB # schedAB) =
       (Panics,
        [State \<lparr>From = ''127.0.0.1:50000'',
                Info = ''connection established: 127.0.0.1:50000 -(tcp)> 127.0.0.1:8080 -(ssh)> gateway:22 -(tcp)> 10.0.0.1:9999'',
                Error = None, Ready = True, Closed = False\<rparr>,
         Copy TaskB (Some FromConn) None])"
proof -
  have l: "forwardType tunL = Local \<or> forwardType tunL = Remote"
    and u1: "forwardType tunU \<noteq> Local" and u2: "forwardType tunU \<noteq> Remote"
    by (simp_all add: tunL_def tunU_def)
  have np: "fst (forward tunL wClean schedRace) \<noteq> Panics"
    using undeclared_forward_type [of tunL wClean schedRace] l by blast
  have e: "tunneledState tunU (establishedState tunU (remoteAddr wClean)) =
        [State \<lparr>From = ''127.0.0.1:50000'',
                Info = ''connection established: 127.0.0.1:50000 -(tcp)> 127.0.0.1:8080 -(ssh)> gateway:22 -(tcp)> 10.0.0.1:9999'',
                Error = None, Ready = True, Closed = False\<rparr>]"
    by code_simp
  have pa: "forward tunU wClean (TaskA # schedAB) =
       (Panics,
        [State \<lparr>From = ''127.0.0.1:50000'',
                Info = ''connection established: 127.0.0.1:50000 -(tcp)> 127.0.0.1:8080 -(ssh)> gateway:22 -(tcp)> 10.0.0.1:9999'',
                Error = None, Ready = True, Closed = False\<rparr>,
         Copy TaskA None (Some FromConn)])"
    and pb: "forward tunU wClean (TaskB # schedAB) =
       (Panics,
        [State \<lparr>From = ''127.0.0.1:50000'',
                Info = ''connection established: 127.0.0.1:50000 -(tcp)> 127.0.0.1:8080 -(ssh)> gateway:22 -(tcp)> 10.0.0.1:9999'',
                Error = None, Ready = True, Closed = False\<rparr>,
         Copy TaskB (Some FromConn) None])"
    using undeclared_forward_type [of tunU wClean schedAB] u1 u2 unfolding e by simp_all
  show ?thesis by (intro conjI; fact)
qed

end
